theory Spec2Isabelle
  imports Main
begin

section \<open>Data model of ZapLog.go\<close>

text \<open>
  The package holds two functions of interest: \<open>InitLogger\<close>, which builds the zap
  logger and stores it in the package variable \<open>SugarLogger\<close>, and \<open>HttpLogger\<close>, the gin
  middleware that logs one request/response cycle.  Both are embedded as functions over
  an explicit state.  A Go panic is a value of type \<open>panic\<close>; a function that may panic
  returns \<open>panic + 'a\<close>.

  Functions of the Go standard library whose results the code only passes on (JSON
  decoding and encoding, query parsing, media type parsing, \<open>path.Dir\<close>, the file system)
  are parameters, collected in the records \<open>stdlib\<close> and \<open>filesystem\<close>.
\<close>

datatype panic = NilPointerDereference | HandlerPanic string

text \<open>\<open>url.Values\<close>, a \<open>map[string][]string\<close>, as an association list.\<close>

type_synonym url_Values = "(string \<times> string list) list"

text \<open>\<open>http.Header\<close>: canonical header name to the list of its values.\<close>

type_synonym header = "string \<rightharpoonup> string list"

text \<open>
  What \<open>json.Unmarshal\<close> stores in an \<open>interface{}\<close>: nil, bool, float64 (kept here as
  the number's text), string, \<open>[]interface{}\<close> or \<open>map[string]interface{}\<close>.
\<close>

datatype json =
    JNull
  | JBool bool
  | JNumber string
  | JString string
  | JArray "json list"
  | JObject "(string \<times> json) list"

datatype json_error = SyntaxError | UnmarshalTypeError

record stdlib =
  json_decode :: "string \<Rightarrow> json option"
    \<comment> \<open>generic decoding of a JSON text; \<open>None\<close> when encoding/json rejects the text\<close>
  json_encode_object :: "(string \<times> json) list \<Rightarrow> string option"
    \<comment> \<open>\<open>json.Marshal\<close> of a non-nil \<open>map[string]interface{}\<close>; \<open>None\<close> on error\<close>
  url_ParseQuery :: "string \<Rightarrow> url_Values"
    \<comment> \<open>the values returned by \<open>url.ParseQuery\<close> (its error is dropped by all callers here)\<close>
  mime_ParseMediaType :: "string \<Rightarrow> string"
    \<comment> \<open>the media type returned by \<open>mime.ParseMediaType\<close>\<close>
  path_Dir :: "string \<Rightarrow> string"

record filesystem =
  os_Stat_IsNotExist :: "string \<Rightarrow> bool"
    \<comment> \<open>\<open>os.IsNotExist\<close> of the error of \<open>os.Stat\<close>\<close>
  os_MkdirAll :: "string \<Rightarrow> nat \<Rightarrow> string option"
    \<comment> \<open>the error of \<open>os.MkdirAll\<close>, \<open>None\<close> for nil\<close>

subsection \<open>The logger\<close>

record lumberjack_Logger =
  Filename :: string
  MaxSize :: int
  MaxBackups :: int
  MaxAge :: int
  Compress :: bool

datatype WriteSyncer = FileSync lumberjack_Logger | StdoutSync

datatype TimeEncoder = EpochTimeEncoder | ISO8601TimeEncoder

datatype LevelEncoder = LowercaseLevelEncoder | CapitalLevelEncoder

record Encoder =
  EncodeTime :: TimeEncoder
  EncodeLevel :: LevelEncoder

datatype level = DebugLevel | InfoLevel | ErrorLevel

record Core =
  core_encoder :: Encoder
  core_sink :: WriteSyncer
  core_level :: level

record SugaredLogger =
  cores :: "Core list"
  addCaller :: bool

datatype params = ParamsNil | ParamsString string | ParamsValues "url_Values option"

record request_log =
  req_requestId :: string
  req_handlerName :: string
  req_httpPath :: string
  req_method :: string
  req_reqParams :: params
  req_clientIP :: string

record response_log =
  resp_requestId :: string
  resp_statusCode :: int
  resp_errorMessage :: string
  resp_responseData :: string
  resp_size :: nat
  resp_cost :: int

text \<open>
  The two messages the package logs.  The texts are fixed \<open>Sprintf\<close> templates; a
  message is kept as the tuple of the template's arguments.
\<close>

datatype log_message =
    DirErrorMsg string
  | HttpMsg request_log response_log

text \<open>
  The process-wide state: the package variable \<open>SugarLogger\<close> (\<open>None\<close> is the nil
  pointer); the messages handed so far to \<open>Errorf\<close> and \<open>Infof\<close>, each with the logger it
  was handed to and the level of the call (what zap then encodes and writes is outside
  the package); and the clock read by \<open>time.Now\<close>.
\<close>

record world =
  SugarLogger :: "SugaredLogger option"
  emitted :: "(SugaredLogger \<times> level \<times> log_message) list"
  clock :: nat

subsection \<open>Requests, writers and the gin context\<close>

text \<open>\<open>Body\<close> holds the bytes of the body stream that have not been read yet.\<close>

record request =
  Method :: string
  URL_Path :: string
  URL_RawQuery :: string
  Header :: header
  Body :: string
  Form :: "url_Values option"
  PostForm :: "url_Values option"

record ResponseWriter =
  w_status :: int
  w_header :: header
  w_written :: string

text \<open>
  Modelled from the spec: the type \<open>ResponseRecorder\<close> and \<open>NewResponseRecorder\<close> are
  not in ZapLog.go.  The spec's recording writer "wraps the real response writer; owns a
  buffer that accumulates written bytes in parallel with forwarding them; owns the
  last-written status code".
\<close>

record ResponseRecorder =
  rec_writer :: ResponseWriter
  rec_Body :: string
  rec_status :: int

definition NewResponseRecorder :: "ResponseWriter \<Rightarrow> ResponseRecorder" where
  "NewResponseRecorder w = \<lparr>rec_writer = w, rec_Body = [], rec_status = w_status w\<rparr>"

definition rec_Status :: "ResponseRecorder \<Rightarrow> int" where
  "rec_Status r = rec_status r"

definition rec_Header :: "ResponseRecorder \<Rightarrow> header" where
  "rec_Header r = w_header (rec_writer r)"

text \<open>
  The gin context, with the type of its writer as a parameter: \<open>HttpLogger\<close> receives
  the framework's writer and hands a context with the recorder to the rest of the chain.
  \<open>HandlerName\<close> is the name of \<open>c.Handler()\<close>, \<open>ClientIP\<close> the result of \<open>c.ClientIP()\<close>,
  \<open>PrivateErrors\<close> the text of \<open>c.Errors.ByType(gin.ErrorTypePrivate).String()\<close>.
\<close>

record 'w gin_Context =
  Request :: request
  Writer :: 'w
  HandlerName :: string
  ClientIP :: string
  PrivateErrors :: string

text \<open>The rest of the handler chain, run by \<open>c.Next()\<close>.\<close>

type_synonym handler =
  "world \<Rightarrow> ResponseRecorder gin_Context \<Rightarrow> panic + (world \<times> ResponseRecorder gin_Context)"

section \<open>Library functions with a fixed meaning\<close>

text \<open>
  \<open>Header.Get\<close>: the first value stored under the key, or the empty string.  The two
  keys the code uses, \<open>X-Request-Id\<close> and \<open>Content-Type\<close>, are in canonical form already.
\<close>

definition Header_Get :: "header \<Rightarrow> string \<Rightarrow> string" where
  "Header_Get h key = (case h key of None \<Rightarrow> [] | Some [] \<Rightarrow> [] | Some (v # _) \<Rightarrow> v)"

text \<open>gin's \<open>filterFlags\<close>: the content up to the first space or semicolon.\<close>

definition filterFlags :: "string \<Rightarrow> string" where
  "filterFlags content = takeWhile (\<lambda>ch. ch \<noteq> CHR '' '' \<and> ch \<noteq> CHR '';'') content"

text \<open>gin's \<open>c.ContentType()\<close>.\<close>

definition ContentType :: "'w gin_Context \<Rightarrow> string" where
  "ContentType c = filterFlags (Header_Get (Header (Request c)) ''Content-Type'')"

text \<open>\<open>strings.SplitN(s, ";", 2)[0]\<close>: the part of \<open>s\<close> before the first semicolon.\<close>

definition SplitN_semicolon_first :: "string \<Rightarrow> string" where
  "SplitN_semicolon_first s = takeWhile (\<lambda>ch. ch \<noteq> CHR '';'') s"

text \<open>
  \<open>json.Unmarshal(data, &m)\<close> for \<open>var m map[string]interface{}\<close>: the new value of
  \<open>m\<close> (\<open>None\<close> is the nil map).  A JSON null sets a map to nil without an error; any
  other value that is not an object is an \<open>UnmarshalTypeError\<close>.
\<close>

definition json_Unmarshal_map ::
  "stdlib \<Rightarrow> string \<Rightarrow> json_error + (string \<times> json) list option" where
  "json_Unmarshal_map lib data =
     (case json_decode lib data of
        None \<Rightarrow> Inl SyntaxError
      | Some JNull \<Rightarrow> Inr None
      | Some (JObject kvs) \<Rightarrow> Inr (Some kvs)
      | Some _ \<Rightarrow> Inl UnmarshalTypeError)"

text \<open>\<open>json.Marshal(m)\<close> for a \<open>map[string]interface{}\<close>: a nil map encodes as \<open>null\<close>.\<close>

definition json_Marshal_map :: "stdlib \<Rightarrow> (string \<times> json) list option \<Rightarrow> string option" where
  "json_Marshal_map lib m =
     (case m of None \<Rightarrow> Some ''null'' | Some kvs \<Rightarrow> json_encode_object lib kvs)"

text \<open>\<open>copyValues\<close> of net/http: append the values of \<open>src\<close> to those of \<open>dst\<close>, key by key.\<close>

fun values_append :: "url_Values \<Rightarrow> string \<Rightarrow> string list \<Rightarrow> url_Values" where
  "values_append [] k vs = [(k, vs)]"
| "values_append ((k', vs') # rest) k vs =
     (if k' = k then (k', vs' @ vs) # rest else (k', vs') # values_append rest k vs)"

definition copyValues :: "url_Values \<Rightarrow> url_Values \<Rightarrow> url_Values" where
  "copyValues dst src = foldl (\<lambda>d (k, vs). values_append d k vs) dst src"

definition maxFormSize :: nat where
  "maxFormSize = 10485760"

text \<open>
  \<open>parsePostForm\<close> of net/http, for a body that is not nil and not a
  \<open>MaxBytesReader\<close>: a body of media type \<open>application/x-www-form-urlencoded\<close> is read
  through a reader limited to \<open>maxFormSize + 1\<close> bytes and parsed; no other body is
  touched.  The result is the parsed values (\<open>None\<close> for nil) and the request with what is
  left of its body.
\<close>

definition parsePostForm :: "stdlib \<Rightarrow> request \<Rightarrow> url_Values option \<times> request" where
  "parsePostForm lib r =
     (let ct0 = Header_Get (Header r) ''Content-Type'';
          ct1 = (if ct0 = [] then ''application/octet-stream'' else ct0);
          ct = mime_ParseMediaType lib ct1
      in if ct = ''application/x-www-form-urlencoded'' then
           (let b = take (maxFormSize + 1) (Body r);
                r' = r\<lparr>Body := drop (maxFormSize + 1) (Body r)\<rparr>
            in if length b > maxFormSize then (None, r')
               else (Some (url_ParseQuery lib b), r'))
         else (None, r))"

text \<open>
  \<open>Request.ParseForm\<close> of net/http: for POST, PUT and PATCH it reads the body as a
  form into \<open>PostForm\<close>; \<open>Form\<close> receives the post values followed by the URL query.
\<close>

definition ParseForm :: "stdlib \<Rightarrow> request \<Rightarrow> request" where
  "ParseForm lib r =
     (let r1 =
            (if PostForm r = None then
               (let r' = (if Method r = ''POST'' \<or> Method r = ''PUT'' \<or> Method r = ''PATCH''
                          then (case parsePostForm lib r of (vs, rb) \<Rightarrow> rb\<lparr>PostForm := vs\<rparr>)
                          else r)
                in if PostForm r' = None then r'\<lparr>PostForm := Some []\<rparr> else r')
             else r)
      in if Form r1 = None then
           (let newValues = url_ParseQuery lib (URL_RawQuery r1)
            in case PostForm r1 of
                 Some (p # ps) \<Rightarrow> r1\<lparr>Form := Some (copyValues (copyValues [] (p # ps)) newValues)\<rparr>
               | _ \<Rightarrow> r1\<lparr>Form := Some newValues\<rparr>)
         else r1)"

text \<open>\<open>URL.Query()\<close>.\<close>

definition URL_Query :: "stdlib \<Rightarrow> request \<Rightarrow> url_Values" where
  "URL_Query lib r = url_ParseQuery lib (URL_RawQuery r)"

section \<open>InitLogger\<close>

text \<open>The directory is created with mode 0755, which is 493.\<close>

definition ensureDir :: "stdlib \<Rightarrow> filesystem \<Rightarrow> string \<Rightarrow> string option" where
  "ensureDir lib fs filePath =
     (let dir = path_Dir lib filePath
      in if os_Stat_IsNotExist fs dir then os_MkdirAll fs dir 493 else None)"

definition getEncoder :: Encoder where
  "getEncoder = \<lparr>EncodeTime = ISO8601TimeEncoder, EncodeLevel = CapitalLevelEncoder\<rparr>"

definition getLogWriter :: "string \<Rightarrow> int \<Rightarrow> int \<Rightarrow> int \<Rightarrow> bool \<Rightarrow> WriteSyncer" where
  "getLogWriter filename maxSize maxBackups maxAge compress =
     FileSync \<lparr>Filename = filename, MaxSize = maxSize, MaxBackups = maxBackups,
               MaxAge = maxAge, Compress = compress\<rparr>"

text \<open>
  \<open>SugarLogger.Errorf\<close> and \<open>SugarLogger.Infof\<close>: on a nil receiver the method panics
  when it reads the logger's core; otherwise the message is handed to the logger.
\<close>

definition sugar_log :: "level \<Rightarrow> log_message \<Rightarrow> world \<Rightarrow> panic + world" where
  "sugar_log lvl msg w =
     (case SugarLogger w of
        None \<Rightarrow> Inl NilPointerDereference
      | Some l \<Rightarrow> Inr (w\<lparr>emitted := emitted w @ [(l, lvl, msg)]\<rparr>))"

definition newLogger :: "string \<Rightarrow> int \<Rightarrow> int \<Rightarrow> int \<Rightarrow> bool \<Rightarrow> SugaredLogger" where
  "newLogger filename maxSize maxBackups maxAge compress =
     (let writeSyncer = getLogWriter filename maxSize maxBackups maxAge compress;
          consoleWriteSyncer = StdoutSync;
          encoder = getEncoder
      in \<lparr>cores = [\<lparr>core_encoder = encoder, core_sink = writeSyncer, core_level = DebugLevel\<rparr>,
                    \<lparr>core_encoder = encoder, core_sink = consoleWriteSyncer,
                     core_level = DebugLevel\<rparr>],
          addCaller = True\<rparr>)"

definition InitLogger ::
  "stdlib \<Rightarrow> filesystem \<Rightarrow> string \<Rightarrow> int \<Rightarrow> int \<Rightarrow> int \<Rightarrow> bool \<Rightarrow> world \<Rightarrow> panic + world" where
  "InitLogger lib fs filename maxSize maxBackups maxAge compress w =
     (case (case ensureDir lib fs filename of
              Some err \<Rightarrow> sugar_log ErrorLevel (DirErrorMsg err) w
            | None \<Rightarrow> Inr w) of
        Inl p \<Rightarrow> Inl p
      | Inr w1 \<Rightarrow>
          Inr (w1\<lparr>SugarLogger := Some (newLogger filename maxSize maxBackups maxAge compress)\<rparr>))"

section \<open>HttpLogger\<close>

text \<open>\<open>io.ReadAll\<close> on the body: every unread byte is returned and the stream is left empty.\<close>

definition io_ReadAll :: "request \<Rightarrow> string \<times> request" where
  "io_ReadAll r = (Body r, r\<lparr>Body := []\<rparr>)"

text \<open>The case of the request-side \<open>switch c.ContentType()\<close> that a content type selects.\<close>

datatype req_case = ReqJSON | ReqForm | ReqOctetStream | ReqDefault

definition req_switch :: "string \<Rightarrow> req_case" where
  "req_switch ct =
     (if ct = ''application/json'' then ReqJSON
      else if ct = ''application/x-www-form-urlencoded'' \<or> ct = ''multipart/form-data''
      then ReqForm
      else if ct = ''application/octet-stream'' then ReqOctetStream
      else ReqDefault)"

text \<open>The case of the response-side \<open>switch respCT\<close>.\<close>

datatype resp_case = RespJSON | RespForm | RespBinary | RespDefault

definition resp_switch :: "string \<Rightarrow> resp_case" where
  "resp_switch ct =
     (if ct = ''application/json'' then RespJSON
      else if ct = ''application/x-www-form-urlencoded'' \<or> ct = ''multipart/form-data''
      then RespForm
      else if ct = ''audio/mpeg'' \<or> ct = ''text/html'' \<or> ct = ''application/octet-stream''
      then RespBinary
      else RespDefault)"

definition unsupported :: "string \<Rightarrow> string" where
  "unsupported ct = ''[UNSUPPORTED CONTENT TYPE: '' @ ct @ '']''"

text \<open>
  Lines 80 to 106: the request parameters for the log, and the request as the switch
  leaves it.
\<close>

definition requestParams :: "stdlib \<Rightarrow> 'w gin_Context \<Rightarrow> params \<times> request" where
  "requestParams lib c =
     (case req_switch (ContentType c) of
        ReqJSON \<Rightarrow>
          (case io_ReadAll (Request c) of
             (bodyBytes, r1) \<Rightarrow>
               ((if length bodyBytes > 0 then
                   (case json_Unmarshal_map lib bodyBytes of
                      Inl err \<Rightarrow> ParamsNil
                    | Inr m \<Rightarrow>
                        (case json_Marshal_map lib m of
                           None \<Rightarrow> ParamsNil
                         | Some marshal \<Rightarrow> ParamsString marshal))
                 else ParamsNil),
                r1\<lparr>Body := bodyBytes\<rparr>))
      | ReqForm \<Rightarrow>
          (let r1 = ParseForm lib (Request c) in (ParamsValues (Form r1), r1))
      | ReqOctetStream \<Rightarrow> (ParamsString ''[BINARY DATA]'', Request c)
      | ReqDefault \<Rightarrow>
          (if Method (Request c) = ''GET'' \<and> length (URL_Query lib (Request c)) > 0
           then (ParamsValues (Some (URL_Query lib (Request c))), Request c)
           else (ParamsString (unsupported (ContentType c)), Request c)))"

definition requestLog :: "stdlib \<Rightarrow> 'w gin_Context \<Rightarrow> request_log" where
  "requestLog lib c =
     \<lparr>req_requestId = Header_Get (Header (Request c)) ''X-Request-Id'',
      req_handlerName = HandlerName c,
      req_httpPath = URL_Path (Request c),
      req_method = Method (Request c),
      req_reqParams = fst (requestParams lib c),
      req_clientIP = ClientIP c\<rparr>"

text \<open>The context on which \<open>c.Next()\<close> runs: the request as left by the switch, the recorder as writer.\<close>

definition beforeNext :: "stdlib \<Rightarrow> ResponseWriter gin_Context \<Rightarrow> ResponseRecorder gin_Context" where
  "beforeNext lib c =
     \<lparr>Request = snd (requestParams lib c),
      Writer = NewResponseRecorder (Writer c),
      HandlerName = HandlerName c,
      ClientIP = ClientIP c,
      PrivateErrors = PrivateErrors c\<rparr>"

definition respCT :: "ResponseRecorder \<Rightarrow> string" where
  "respCT recorder = SplitN_semicolon_first (Header_Get (rec_Header recorder) ''Content-Type'')"

text \<open>Lines 132 to 143.\<close>

definition responseData :: "ResponseRecorder \<Rightarrow> string" where
  "responseData recorder =
     (case resp_switch (respCT recorder) of
        RespJSON \<Rightarrow> rec_Body recorder
      | RespForm \<Rightarrow> rec_Body recorder
      | RespBinary \<Rightarrow> ''[BINARY DATA]''
      | RespDefault \<Rightarrow> unsupported (respCT recorder))"

definition responseLog :: "string \<Rightarrow> nat \<Rightarrow> world \<Rightarrow> ResponseRecorder gin_Context \<Rightarrow> response_log" where
  "responseLog requestId start w c =
     \<lparr>resp_requestId = requestId,
      resp_statusCode = rec_Status (Writer c),
      resp_errorMessage = PrivateErrors c,
      resp_responseData = responseData (Writer c),
      resp_size = length (rec_Body (Writer c)),
      resp_cost = int (clock w) - int start\<rparr>"

text \<open>
  The middleware returned by \<open>HttpLogger()\<close>.  The start time and the request log are
  taken before \<open>c.Next()\<close>; a panic of the rest of the chain passes through; afterwards
  the recorder is read as the chain left it, in the writer of the context, and the two
  logs are handed to \<open>SugarLogger.Infof\<close>.
\<close>

definition HttpLogger ::
  "stdlib \<Rightarrow> handler \<Rightarrow> world \<Rightarrow> ResponseWriter gin_Context
     \<Rightarrow> panic + (world \<times> ResponseRecorder gin_Context)" where
  "HttpLogger lib next w c =
     (let start = clock w;
          rl = requestLog lib c
      in case next w (beforeNext lib c) of
           Inl p \<Rightarrow> Inl p
         | Inr (w2, c2) \<Rightarrow>
             (case sugar_log InfoLevel
                     (HttpMsg rl (responseLog (req_requestId rl) start w2 c2)) w2 of
                Inl p \<Rightarrow> Inl p
              | Inr w3 \<Rightarrow> Inr (w3, c2)))"

section \<open>Sample inputs\<close>

text \<open>
  A library that agrees with Go's on the few texts used below: \<open>null\<close>, \<open>[1,2]\<close>,
  \<open>{}\<close> and \<open>{bad\<close> as JSON, \<open>a=1\<close> as a query, media types without parameters, the
  path \<open>/var/log/app/http.log\<close>.
\<close>

definition sample_lib :: stdlib where
  "sample_lib =
     \<lparr>json_decode = (\<lambda>s. if s = ''null'' then Some JNull
                          else if s = ''[1,2]'' then Some (JArray [JNumber ''1'', JNumber ''2''])
                          else if s = ''{}'' then Some (JObject [])
                          else None),
      json_encode_object = (\<lambda>kvs. if kvs = [] then Some ''{}'' else None),
      url_ParseQuery = (\<lambda>s. if s = ''a=1'' then [(''a'', [''1''])] else []),
      mime_ParseMediaType = (\<lambda>s. s),
      path_Dir = (\<lambda>p. if p = ''/var/log/app/http.log'' then ''/var/log/app'' else ''.'')\<rparr>"

text \<open>A file system in which the log directory is missing and cannot be created.\<close>

definition readonly_fs :: filesystem where
  "readonly_fs =
     \<lparr>os_Stat_IsNotExist = (\<lambda>d. True),
      os_MkdirAll = (\<lambda>d perm. Some ''mkdir /var/log/app: permission denied'')\<rparr>"

definition fresh_world :: world where
  "fresh_world = \<lparr>SugarLogger = None, emitted = [], clock = 0\<rparr>"

definition ready_world :: world where
  "ready_world =
     \<lparr>SugarLogger = Some (newLogger ''/var/log/app/http.log'' 10 5 30 False),
      emitted = [], clock = 0\<rparr>"

text \<open>
  A request with the given method, raw query, Content-Type header (none when the text is
  empty) and body, and no request id.
\<close>

definition sample_ctx :: "string \<Rightarrow> string \<Rightarrow> string \<Rightarrow> string \<Rightarrow> ResponseWriter gin_Context" where
  "sample_ctx method query ct body =
     \<lparr>Request = \<lparr>Method = method, URL_Path = ''/api/items'', URL_RawQuery = query,
                  Header = (if ct = [] then Map.empty else [''Content-Type'' \<mapsto> [ct]]),
                  Body = body,
                  Form = None, PostForm = None\<rparr>,
      Writer = \<lparr>w_status = 200, w_header = Map.empty, w_written = []\<rparr>,
      HandlerName = ''main.listItems'',
      ClientIP = ''10.0.0.7'',
      PrivateErrors = []\<rparr>"

text \<open>A handler that answers with a plain-text body and takes five clock ticks.\<close>

definition text_handler :: handler where
  "text_handler w c =
     Inr (w\<lparr>clock := clock w + 5\<rparr>,
          c\<lparr>Writer :=
               \<lparr>rec_writer = \<lparr>w_status = 200,
                               w_header = [''Content-Type'' \<mapsto> [''text/plain; charset=utf-8'']],
                               w_written = ''ok''\<rparr>,
                rec_Body = ''ok'', rec_status = 200\<rparr>\<rparr>)"

text \<open>The same context with the header \<open>X-Request-Id\<close> set to one value.\<close>

definition with_request_id :: "string \<Rightarrow> 'w gin_Context \<Rightarrow> 'w gin_Context" where
  "with_request_id rid c =
     c\<lparr>Request := (Request c)\<lparr>Header := (Header (Request c))(''X-Request-Id'' \<mapsto> [rid])\<rparr>\<rparr>"

text \<open>A recorder after a response with the given Content-Type header and the body \<open>ok\<close>.\<close>

definition sample_recorder :: "string \<Rightarrow> ResponseRecorder" where
  "sample_recorder ct =
     \<lparr>rec_writer = \<lparr>w_status = 200, w_header = [''Content-Type'' \<mapsto> [ct]],
                     w_written = ''ok''\<rparr>,
      rec_Body = ''ok'', rec_status = 200\<rparr>"

section \<open>Auxiliary facts\<close>

lemma requestParams_json:
  "ContentType c = ''application/json'' \<Longrightarrow>
   requestParams lib c =
     ((if Body (Request c) = [] then ParamsNil
       else (case json_Unmarshal_map lib (Body (Request c)) of
               Inl err \<Rightarrow> ParamsNil
             | Inr m \<Rightarrow> (case json_Marshal_map lib m of
                          None \<Rightarrow> ParamsNil
                        | Some marshal \<Rightarrow> ParamsString marshal))),
      Request c)"
  by (simp add: requestParams_def req_switch_def io_ReadAll_def)

text \<open>
  \<open>HttpLogger\<close> returns normally exactly when the rest of the chain does and the logger
  is set at that moment; it has then logged one more message.
\<close>

lemma HttpLogger_Inr_iff:
  "HttpLogger lib next w c = Inr (w', c') \<longleftrightarrow>
     (\<exists>w2 l. next w (beforeNext lib c) = Inr (w2, c') \<and> SugarLogger w2 = Some l \<and>
        w' = w2\<lparr>emitted := emitted w2 @
               [(l, InfoLevel,
                 HttpMsg (requestLog lib c)
                   (responseLog (req_requestId (requestLog lib c)) (clock w) w2 c'))]\<rparr>)"
  by (auto simp: HttpLogger_def sugar_log_def Let_def split: sum.splits option.splits prod.splits)

lemma HttpLogger_last_emitted:
  assumes "HttpLogger lib next w c = Inr (w', c')"
  shows "\<exists>l w2. last (emitted w') =
           (l, InfoLevel,
            HttpMsg (requestLog lib c)
              (responseLog (req_requestId (requestLog lib c)) (clock w) w2 c'))"
  using assms unfolding HttpLogger_Inr_iff by auto

text \<open>One complete run: a GET request with a query, answered in plain text, logger set.\<close>

lemma text_handler_run:
  "HttpLogger sample_lib text_handler ready_world (sample_ctx ''GET'' ''a=1'' [] []) =
     Inr (ready_world
            \<lparr>clock := 5,
             emitted :=
               [(newLogger ''/var/log/app/http.log'' 10 5 30 False, InfoLevel,
                 HttpMsg
                   \<lparr>req_requestId = [], req_handlerName = ''main.listItems'',
                    req_httpPath = ''/api/items'', req_method = ''GET'',
                    req_reqParams = ParamsValues (Some [(''a'', [''1''])]),
                    req_clientIP = ''10.0.0.7''\<rparr>
                   \<lparr>resp_requestId = [], resp_statusCode = 200, resp_errorMessage = [],
                    resp_responseData = ''[UNSUPPORTED CONTENT TYPE: text/plain]'',
                    resp_size = 2, resp_cost = 5\<rparr>)]\<rparr>,
          (beforeNext sample_lib (sample_ctx ''GET'' ''a=1'' [] []))
            \<lparr>Writer :=
               \<lparr>rec_writer = \<lparr>w_status = 200,
                               w_header = [''Content-Type'' \<mapsto> [''text/plain; charset=utf-8'']],
                               w_written = ''ok''\<rparr>,
                rec_Body = ''ok'', rec_status = 200\<rparr>\<rparr>)"
  by (simp add: HttpLogger_def text_handler_def ready_world_def sugar_log_def requestLog_def
      responseLog_def responseData_def respCT_def resp_switch_def rec_Header_def rec_Status_def
      Header_Get_def SplitN_semicolon_first_def unsupported_def requestParams_def req_switch_def
      ContentType_def filterFlags_def sample_ctx_def sample_lib_def URL_Query_def beforeNext_def
      NewResponseRecorder_def Let_def)

text \<open>
  A form body sent with POST, PUT or PATCH is read by \<open>ParseForm\<close>, up to the limit,
  and the form case of the switch puts nothing back.
\<close>

lemma form_body_consumed:
  assumes "ContentType c = ''application/x-www-form-urlencoded''"
    and "Method (Request c) = ''POST'' \<or> Method (Request c) = ''PUT'' \<or>
         Method (Request c) = ''PATCH''"
    and "PostForm (Request c) = None"
    and "mime_ParseMediaType lib (Header_Get (Header (Request c)) ''Content-Type'')
           = ''application/x-www-form-urlencoded''"
  shows "Body (Request (beforeNext lib c)) = drop (maxFormSize + 1) (Body (Request c))"
proof -
  have ne: "Header_Get (Header (Request c)) ''Content-Type'' \<noteq> []"
    using assms(1) by (auto simp: ContentType_def filterFlags_def)
  have "Body (ParseForm lib (Request c)) = drop (maxFormSize + 1) (Body (Request c))"
    using assms(2,3,4) ne
    by (auto simp: ParseForm_def parsePostForm_def Let_def split: option.splits list.splits)
  then show ?thesis
    using assms(1) by (simp add: beforeNext_def requestParams_def req_switch_def Let_def)
qed

text \<open>
  The two cuts of a Content-Type header agree when no space comes before the first
  semicolon.
\<close>

lemma filterFlags_no_space:
  "CHR '' '' \<notin> set (takeWhile (\<lambda>ch. ch \<noteq> CHR '';'') s) \<Longrightarrow>
   filterFlags s = takeWhile (\<lambda>ch. ch \<noteq> CHR '';'') s"
  unfolding filterFlags_def by (induction s) auto

text \<open>The values the two switches store, from the header maps.\<close>

lemma ContentType_header:
  "Header (Request c) ''Content-Type'' = Some (s # vs) \<Longrightarrow> ContentType c = filterFlags s"
  by (simp add: ContentType_def Header_Get_def)

lemma respCT_header:
  "w_header (rec_writer r) ''Content-Type'' = Some (s # vs) \<Longrightarrow>
   respCT r = takeWhile (\<lambda>ch. ch \<noteq> CHR '';'') s"
  by (simp add: respCT_def rec_Header_def Header_Get_def SplitN_semicolon_first_def)

text \<open>\<open>InitLogger\<close> when the directory cannot be created, and when it can.\<close>

lemma InitLogger_dir_failure:
  assumes "ensureDir lib fs filename = Some err"
  shows "InitLogger lib fs filename maxSize maxBackups maxAge compress w =
           (case SugarLogger w of
              None \<Rightarrow> Inl NilPointerDereference
            | Some old \<Rightarrow>
                Inr (w\<lparr>emitted := emitted w @ [(old, ErrorLevel, DirErrorMsg err)],
                       SugarLogger :=
                         Some (newLogger filename maxSize maxBackups maxAge compress)\<rparr>))"
  using assms by (simp add: InitLogger_def sugar_log_def split: option.splits)

lemma InitLogger_dir_ok:
  assumes "ensureDir lib fs filename = None"
  shows "InitLogger lib fs filename maxSize maxBackups maxAge compress w =
           Inr (w\<lparr>SugarLogger := Some (newLogger filename maxSize maxBackups maxAge compress)\<rparr>)"
  using assms by (simp add: InitLogger_def)

section \<open>The request body after the capture\<close>

text \<open>
  C1.  For a request whose content type is \<open>application/json\<close>, the context handed to
  the rest of the chain carries a body stream with exactly the bytes the request arrived
  with, for every library, that is whether or not the body could be normalised: a handler
  that refuses any other body behaves as the handler itself.
\<close>

theorem json_body_restored:
  assumes "ContentType c = ''application/json''"
  shows "Body (Request (beforeNext lib c)) = Body (Request c) \<and>
         HttpLogger lib next w c =
           HttpLogger lib
             (\<lambda>w' c'. if Body (Request c') = Body (Request c) then next w' c'
                       else Inl (HandlerPanic ''another body'')) w c"
  using assms by (simp add: HttpLogger_def beforeNext_def requestParams_json)

theorem json_body_restored_witness:
  "ContentType (sample_ctx ''POST'' [] ''application/json; charset=utf-8'' ''{bad'')
     = ''application/json'' \<and>
   Body (Request (beforeNext sample_lib
     (sample_ctx ''POST'' [] ''application/json; charset=utf-8'' ''{bad''))) = ''{bad''"
proof -
  have h: "ContentType (sample_ctx ''POST'' [] ''application/json; charset=utf-8'' ''{bad'')
             = ''application/json''"
    by (simp add: ContentType_def sample_ctx_def Header_Get_def filterFlags_def)
  from json_body_restored [OF h, of sample_lib] h show ?thesis
    by (simp add: sample_ctx_def)
qed

text \<open>
  C2.  The spec's invariant asks that a body read for logging be put back.  The form case
  does not do it: for a POST request of content type \<open>application/x-www-form-urlencoded\<close>
  with body \<open>a=1\<close>, the form values reach the log and the rest of the chain receives an
  empty body stream.
\<close>

theorem form_body_not_restored:
  "Body (Request (sample_ctx ''POST'' [] ''application/x-www-form-urlencoded'' ''a=1'')) = ''a=1'' \<and>
   req_reqParams (requestLog sample_lib
     (sample_ctx ''POST'' [] ''application/x-www-form-urlencoded'' ''a=1''))
     = ParamsValues (Some [(''a'', [''1''])]) \<and>
   Body (Request (beforeNext sample_lib
     (sample_ctx ''POST'' [] ''application/x-www-form-urlencoded'' ''a=1''))) = []"
  by (simp add: sample_ctx_def sample_lib_def beforeNext_def requestLog_def requestParams_def
      req_switch_def ContentType_def Header_Get_def filterFlags_def ParseForm_def
      parsePostForm_def maxFormSize_def copyValues_def Let_def)

section \<open>The two switches\<close>

text \<open>
  C3, as stated, fails.  The content types \<open>text/html\<close> and \<open>audio/mpeg\<close> select the
  default case of the request-side switch, which stores the unsupported placeholder for a
  POST request, and the binary case of the response-side switch.  A header with a space
  before its parameter, \<open>application/json charset=utf-8\<close>, is cut at the space on the
  request side and selects the JSON case there; the response side cuts at semicolons only
  and selects the default case.
\<close>

theorem text_html_cases_differ:
  "req_switch (ContentType (sample_ctx ''POST'' [] ''text/html'' ''x'')) = ReqDefault \<and>
   fst (requestParams sample_lib (sample_ctx ''POST'' [] ''text/html'' ''x''))
     = ParamsString ''[UNSUPPORTED CONTENT TYPE: text/html]'' \<and>
   resp_switch (respCT (sample_recorder ''text/html'')) = RespBinary \<and>
   responseData (sample_recorder ''text/html'') = ''[BINARY DATA]'' \<and>
   req_switch (ContentType (sample_ctx ''POST'' [] ''audio/mpeg'' ''x'')) = ReqDefault \<and>
   fst (requestParams sample_lib (sample_ctx ''POST'' [] ''audio/mpeg'' ''x''))
     = ParamsString ''[UNSUPPORTED CONTENT TYPE: audio/mpeg]'' \<and>
   resp_switch (respCT (sample_recorder ''audio/mpeg'')) = RespBinary \<and>
   responseData (sample_recorder ''audio/mpeg'') = ''[BINARY DATA]'' \<and>
   req_switch (ContentType (sample_ctx ''POST'' [] ''application/json charset=utf-8'' ''x''))
     = ReqJSON \<and>
   resp_switch (respCT (sample_recorder ''application/json charset=utf-8'')) = RespDefault \<and>
   responseData (sample_recorder ''application/json charset=utf-8'')
     = ''[UNSUPPORTED CONTENT TYPE: application/json charset=utf-8]''"
  by (simp add: sample_ctx_def sample_recorder_def sample_lib_def requestParams_def
      req_switch_def resp_switch_def ContentType_def respCT_def rec_Header_def Header_Get_def
      filterFlags_def SplitN_semicolon_first_def responseData_def unsupported_def URL_Query_def)

text \<open>
  C3, amended.  Let a request and a response carry the same Content-Type header, with no
  space before its first semicolon, and let \<open>ct\<close> be the header up to that semicolon.
  \<^item> \<open>application/json\<close>: both switches select their JSON case; the request side stores
    the normalised body (or nothing), the response side the recorded body.
  \<^item> \<open>application/x-www-form-urlencoded\<close>, \<open>multipart/form-data\<close>: both select their form
    case; the request side stores the parsed form, the response side the recorded body.
  \<^item> \<open>application/octet-stream\<close>: both store the binary placeholder.
  \<^item> \<open>audio/mpeg\<close>, \<open>text/html\<close>: the response side stores the binary placeholder, the
    request side selects its default case.
  \<^item> any other \<open>ct\<close>: both select their default case and the response side stores the
    unsupported placeholder around \<open>ct\<close>.
  The default case of the request side stores the parsed URL query when the method is GET
  and the query is not empty, and the unsupported placeholder around \<open>ct\<close> otherwise.
\<close>

theorem switches_correspond:
  assumes "Header (Request c) ''Content-Type'' = Some (s # vs)"
    and "w_header (rec_writer r) ''Content-Type'' = Some (s # vs')"
    and "ct = takeWhile (\<lambda>ch. ch \<noteq> CHR '';'') s"
    and "CHR '' '' \<notin> set ct"
    and "dflt =
           (if Method (Request c) = ''GET'' \<and> url_ParseQuery lib (URL_RawQuery (Request c)) \<noteq> []
            then ParamsValues (Some (url_ParseQuery lib (URL_RawQuery (Request c))))
            else ParamsString (''[UNSUPPORTED CONTENT TYPE: '' @ ct @ '']''))"
  shows "(ct = ''application/json'' \<longrightarrow>
            req_switch (ContentType c) = ReqJSON \<and> resp_switch (respCT r) = RespJSON \<and>
            fst (requestParams lib c) =
              (if Body (Request c) = [] then ParamsNil
               else (case json_Unmarshal_map lib (Body (Request c)) of
                       Inl err \<Rightarrow> ParamsNil
                     | Inr m \<Rightarrow> (case json_Marshal_map lib m of
                                  None \<Rightarrow> ParamsNil
                                | Some marshal \<Rightarrow> ParamsString marshal))) \<and>
            responseData r = rec_Body r) \<and>
         (ct = ''application/x-www-form-urlencoded'' \<or> ct = ''multipart/form-data'' \<longrightarrow>
            req_switch (ContentType c) = ReqForm \<and> resp_switch (respCT r) = RespForm \<and>
            fst (requestParams lib c) = ParamsValues (Form (ParseForm lib (Request c))) \<and>
            responseData r = rec_Body r) \<and>
         (ct = ''application/octet-stream'' \<longrightarrow>
            req_switch (ContentType c) = ReqOctetStream \<and> resp_switch (respCT r) = RespBinary \<and>
            fst (requestParams lib c) = ParamsString ''[BINARY DATA]'' \<and>
            responseData r = ''[BINARY DATA]'') \<and>
         (ct = ''audio/mpeg'' \<or> ct = ''text/html'' \<longrightarrow>
            req_switch (ContentType c) = ReqDefault \<and> resp_switch (respCT r) = RespBinary \<and>
            fst (requestParams lib c) = dflt \<and>
            responseData r = ''[BINARY DATA]'') \<and>
         (ct \<notin> {''application/json'', ''application/x-www-form-urlencoded'',
                 ''multipart/form-data'', ''audio/mpeg'', ''text/html'',
                 ''application/octet-stream''} \<longrightarrow>
            req_switch (ContentType c) = ReqDefault \<and> resp_switch (respCT r) = RespDefault \<and>
            fst (requestParams lib c) = dflt \<and>
            responseData r = ''[UNSUPPORTED CONTENT TYPE: '' @ ct @ '']'')"
proof -
  have q: "ContentType c = ct"
    using assms(1,3,4) by (simp add: ContentType_header filterFlags_no_space)
  have p: "respCT r = ct"
    using assms(2,3) by (simp add: respCT_header)
  have j: "ct = ''application/json'' \<longrightarrow>
            fst (requestParams lib c) =
              (if Body (Request c) = [] then ParamsNil
               else (case json_Unmarshal_map lib (Body (Request c)) of
                       Inl err \<Rightarrow> ParamsNil
                     | Inr m \<Rightarrow> (case json_Marshal_map lib m of
                                  None \<Rightarrow> ParamsNil
                                | Some marshal \<Rightarrow> ParamsString marshal)))"
    using q by (simp add: requestParams_json)
  have d: "req_switch ct = ReqDefault \<longrightarrow> fst (requestParams lib c) = dflt"
    using q assms(5) by (simp add: requestParams_def URL_Query_def unsupported_def)
  have f: "req_switch ct = ReqForm \<longrightarrow>
             fst (requestParams lib c) = ParamsValues (Form (ParseForm lib (Request c)))"
    using q by (simp add: requestParams_def Let_def)
  have b: "req_switch ct = ReqOctetStream \<longrightarrow>
             fst (requestParams lib c) = ParamsString ''[BINARY DATA]''"
    using q by (simp add: requestParams_def)
  have rb: "resp_switch ct = RespBinary \<longrightarrow> responseData r = ''[BINARY DATA]''"
    using p by (simp add: responseData_def)
  have rj: "resp_switch ct = RespJSON \<or> resp_switch ct = RespForm \<longrightarrow> responseData r = rec_Body r"
    using p by (auto simp: responseData_def)
  have rd: "resp_switch ct = RespDefault \<longrightarrow>
              responseData r = ''[UNSUPPORTED CONTENT TYPE: '' @ ct @ '']''"
    using p by (simp add: responseData_def unsupported_def)
  show ?thesis
    unfolding q p using j d f b rb rj rd
    by (auto simp: req_switch_def resp_switch_def)
qed

theorem switches_correspond_witness:
  "fst (requestParams sample_lib (sample_ctx ''POST'' [] ''application/json; charset=utf-8'' ''{}''))
     = ParamsString ''{}'' \<and>
   responseData (sample_recorder ''application/json; charset=utf-8'') = ''ok'' \<and>
   req_switch (ContentType (sample_ctx ''POST'' [] ''multipart/form-data; boundary=x'' ''--x''))
     = ReqForm \<and>
   responseData (sample_recorder ''multipart/form-data; boundary=x'') = ''ok'' \<and>
   fst (requestParams sample_lib (sample_ctx ''POST'' [] ''application/octet-stream'' ''PK''))
     = ParamsString ''[BINARY DATA]'' \<and>
   responseData (sample_recorder ''application/octet-stream'') = ''[BINARY DATA]'' \<and>
   fst (requestParams sample_lib (sample_ctx ''POST'' [] ''audio/mpeg'' ''ID3''))
     = ParamsString ''[UNSUPPORTED CONTENT TYPE: audio/mpeg]'' \<and>
   responseData (sample_recorder ''audio/mpeg'') = ''[BINARY DATA]'' \<and>
   fst (requestParams sample_lib (sample_ctx ''GET'' ''a=1'' ''text/html'' []))
     = ParamsValues (Some [(''a'', [''1''])]) \<and>
   responseData (sample_recorder ''text/html'') = ''[BINARY DATA]'' \<and>
   fst (requestParams sample_lib (sample_ctx ''POST'' [] ''text/plain; charset=utf-8'' ''hi''))
     = ParamsString ''[UNSUPPORTED CONTENT TYPE: text/plain]'' \<and>
   responseData (sample_recorder ''text/plain; charset=utf-8'')
     = ''[UNSUPPORTED CONTENT TYPE: text/plain]''"
proof -
  note defs = sample_ctx_def sample_recorder_def sample_lib_def json_Unmarshal_map_def
    json_Marshal_map_def
  from switches_correspond
    [where c = "sample_ctx ''POST'' [] ''application/json; charset=utf-8'' ''{}''"
       and r = "sample_recorder ''application/json; charset=utf-8''"
       and s = "''application/json; charset=utf-8''" and ct = "''application/json''"
       and lib = sample_lib, OF _ _ _ _ refl]
  have 1: "fst (requestParams sample_lib
                  (sample_ctx ''POST'' [] ''application/json; charset=utf-8'' ''{}''))
             = ParamsString ''{}'' \<and>
           responseData (sample_recorder ''application/json; charset=utf-8'') = ''ok''"
    by (simp add: defs)
  from switches_correspond
    [where c = "sample_ctx ''POST'' [] ''multipart/form-data; boundary=x'' ''--x''"
       and r = "sample_recorder ''multipart/form-data; boundary=x''"
       and s = "''multipart/form-data; boundary=x''" and ct = "''multipart/form-data''"
       and lib = sample_lib, OF _ _ _ _ refl]
  have 2: "req_switch (ContentType
                  (sample_ctx ''POST'' [] ''multipart/form-data; boundary=x'' ''--x'')) = ReqForm \<and>
           responseData (sample_recorder ''multipart/form-data; boundary=x'') = ''ok''"
    by (simp add: defs)
  from switches_correspond
    [where c = "sample_ctx ''POST'' [] ''application/octet-stream'' ''PK''"
       and r = "sample_recorder ''application/octet-stream''"
       and s = "''application/octet-stream''" and ct = "''application/octet-stream''"
       and lib = sample_lib, OF _ _ _ _ refl]
  have 3: "fst (requestParams sample_lib
                  (sample_ctx ''POST'' [] ''application/octet-stream'' ''PK''))
             = ParamsString ''[BINARY DATA]'' \<and>
           responseData (sample_recorder ''application/octet-stream'') = ''[BINARY DATA]''"
    by (simp add: defs)
  from switches_correspond
    [where c = "sample_ctx ''POST'' [] ''audio/mpeg'' ''ID3''"
       and r = "sample_recorder ''audio/mpeg''"
       and s = "''audio/mpeg''" and ct = "''audio/mpeg''"
       and lib = sample_lib, OF _ _ _ _ refl]
  have 4: "fst (requestParams sample_lib (sample_ctx ''POST'' [] ''audio/mpeg'' ''ID3''))
             = ParamsString ''[UNSUPPORTED CONTENT TYPE: audio/mpeg]'' \<and>
           responseData (sample_recorder ''audio/mpeg'') = ''[BINARY DATA]''"
    by (simp add: defs)
  from switches_correspond
    [where c = "sample_ctx ''GET'' ''a=1'' ''text/html'' []"
       and r = "sample_recorder ''text/html''"
       and s = "''text/html''" and ct = "''text/html''"
       and lib = sample_lib, OF _ _ _ _ refl]
  have 5: "fst (requestParams sample_lib (sample_ctx ''GET'' ''a=1'' ''text/html'' []))
             = ParamsValues (Some [(''a'', [''1''])]) \<and>
           responseData (sample_recorder ''text/html'') = ''[BINARY DATA]''"
    by (simp add: defs)
  from switches_correspond
    [where c = "sample_ctx ''POST'' [] ''text/plain; charset=utf-8'' ''hi''"
       and r = "sample_recorder ''text/plain; charset=utf-8''"
       and s = "''text/plain; charset=utf-8''" and ct = "''text/plain''"
       and lib = sample_lib, OF _ _ _ _ refl]
  have 6: "fst (requestParams sample_lib
                  (sample_ctx ''POST'' [] ''text/plain; charset=utf-8'' ''hi''))
             = ParamsString ''[UNSUPPORTED CONTENT TYPE: text/plain]'' \<and>
           responseData (sample_recorder ''text/plain; charset=utf-8'')
             = ''[UNSUPPORTED CONTENT TYPE: text/plain]''"
    by (simp add: defs)
  from 1 2 3 4 5 6 show ?thesis by simp
qed

section \<open>Initialisation\<close>

text \<open>
  C4.  The claim asks that \<open>InitLogger\<close> report a failed directory creation and go on.
  On the first call the package variable is still nil, and reporting through it panics:
  with a log directory that is missing and cannot be created, \<open>InitLogger\<close> does not
  return and assigns no logger.
\<close>

theorem first_InitLogger_panics_on_dir_failure:
  "ensureDir sample_lib readonly_fs ''/var/log/app/http.log''
     = Some ''mkdir /var/log/app: permission denied'' \<and>
   InitLogger sample_lib readonly_fs ''/var/log/app/http.log'' 10 5 30 False fresh_world
     = Inl NilPointerDereference"
  by (simp add: InitLogger_def ensureDir_def sugar_log_def sample_lib_def readonly_fs_def
      fresh_world_def)

section \<open>Captured values\<close>

text \<open>
  C5.  For a request of content type \<open>application/octet-stream\<close>, the request parameter
  of the log is the text \<open>[BINARY DATA]\<close>, whatever the body: replacing the body by any
  other bytes leaves it the same.
\<close>

theorem octet_stream_placeholder:
  assumes "ContentType c = ''application/octet-stream''"
  shows "req_reqParams (requestLog lib c) = ParamsString ''[BINARY DATA]'' \<and>
         req_reqParams (requestLog lib (c\<lparr>Request := (Request c)\<lparr>Body := body\<rparr>\<rparr>))
           = ParamsString ''[BINARY DATA]''"
  using assms by (simp add: requestLog_def requestParams_def req_switch_def ContentType_def)

theorem octet_stream_placeholder_witness:
  "ContentType (sample_ctx ''POST'' [] ''application/octet-stream'' [])
     = ''application/octet-stream'' \<and>
   req_reqParams (requestLog sample_lib
     (sample_ctx ''POST'' [] ''application/octet-stream'' ''PK0304''))
     = ParamsString ''[BINARY DATA]''"
proof -
  have h: "ContentType (sample_ctx ''POST'' [] ''application/octet-stream'' [])
             = ''application/octet-stream''"
    by (simp add: ContentType_def sample_ctx_def Header_Get_def filterFlags_def)
  from octet_stream_placeholder [OF h, of sample_lib "''PK0304''"] h show ?thesis
    by (simp add: sample_ctx_def)
qed

text \<open>
  C6.  Let \<open>HttpLogger\<close> have logged a cycle, and let \<open>ct\<close> be the first value of the
  Content-Type header of the recorder's writer, up to its first semicolon (the empty
  string when the header is absent).  When \<open>ct\<close> is none of the six types the
  response-side switch names, the response data of the logged message is the text
  \<open>[UNSUPPORTED CONTENT TYPE: ct]\<close>.
\<close>

theorem unsupported_response_placeholder:
  assumes "HttpLogger lib next w c = Inr (w', c')"
    and "ct = (case w_header (rec_writer (Writer c')) ''Content-Type'' of
                 Some (v # vs) \<Rightarrow> takeWhile (\<lambda>ch. ch \<noteq> CHR '';'') v
               | _ \<Rightarrow> [])"
    and "ct \<notin> {''application/json'', ''application/x-www-form-urlencoded'',
           ''multipart/form-data'', ''audio/mpeg'', ''text/html'', ''application/octet-stream''}"
  shows "respCT (Writer c') = ct \<and>
         (\<exists>l rl sl. last (emitted w') = (l, InfoLevel, HttpMsg rl sl) \<and>
            resp_responseData sl = ''[UNSUPPORTED CONTENT TYPE: '' @ ct @ '']'')"
proof -
  have ct: "respCT (Writer c') = ct"
    using assms(2)
    by (simp add: respCT_def rec_Header_def Header_Get_def SplitN_semicolon_first_def
        split: option.splits list.splits)
  have "responseData (Writer c') = ''[UNSUPPORTED CONTENT TYPE: '' @ ct @ '']''"
    using assms(3) unfolding responseData_def ct
    by (simp add: resp_switch_def unsupported_def)
  with HttpLogger_last_emitted [OF assms(1)] ct show ?thesis
    by (auto simp: responseLog_def)
qed

theorem unsupported_response_placeholder_witness:
  "\<exists>w' c'. HttpLogger sample_lib text_handler ready_world (sample_ctx ''GET'' ''a=1'' [] [])
             = Inr (w', c') \<and>
     w_header (rec_writer (Writer c')) ''Content-Type'' = Some [''text/plain; charset=utf-8''] \<and>
     respCT (Writer c') = ''text/plain'' \<and>
     (\<exists>l rl sl. last (emitted w') = (l, InfoLevel, HttpMsg rl sl) \<and>
        resp_responseData sl = ''[UNSUPPORTED CONTENT TYPE: text/plain]'')"
proof -
  let ?c' = "(beforeNext sample_lib (sample_ctx ''GET'' ''a=1'' [] []))
            \<lparr>Writer :=
               \<lparr>rec_writer = \<lparr>w_status = 200,
                               w_header = [''Content-Type'' \<mapsto> [''text/plain; charset=utf-8'']],
                               w_written = ''ok''\<rparr>,
                rec_Body = ''ok'', rec_status = 200\<rparr>\<rparr>"
  have hd: "w_header (rec_writer (Writer ?c')) ''Content-Type''
              = Some [''text/plain; charset=utf-8'']"
    by simp
  have ct: "''text/plain'' =
              (case w_header (rec_writer (Writer ?c')) ''Content-Type'' of
                 Some (v # vs) \<Rightarrow> takeWhile (\<lambda>ch. ch \<noteq> CHR '';'') v
               | _ \<Rightarrow> [])"
    by simp
  have out: "''text/plain'' \<notin> {''application/json'', ''application/x-www-form-urlencoded'',
           ''multipart/form-data'', ''audio/mpeg'', ''text/html'', ''application/octet-stream''}"
    by simp
  from unsupported_response_placeholder [OF text_handler_run ct out] hd text_handler_run
  show ?thesis by auto
qed

text \<open>
  C7.  The request id of the logged message, in its request part and in its response
  part, is read from the header \<open>X-Request-Id\<close> of the incoming request: it is the first
  value stored under that name, and the empty string when the header is absent or has no
  value.
\<close>

theorem request_id_from_header:
  assumes "HttpLogger lib next w c = Inr (w', c')"
  shows "\<exists>l rl sl. last (emitted w') = (l, InfoLevel, HttpMsg rl sl) \<and>
           req_requestId rl = Header_Get (Header (Request c)) ''X-Request-Id'' \<and>
           resp_requestId sl = Header_Get (Header (Request c)) ''X-Request-Id'' \<and>
           (\<forall>v vs. Header (Request c) ''X-Request-Id'' = Some (v # vs) \<longrightarrow>
              req_requestId rl = v \<and> resp_requestId sl = v) \<and>
           (Header (Request c) ''X-Request-Id'' = Some [] \<longrightarrow>
              req_requestId rl = [] \<and> resp_requestId sl = []) \<and>
           (Header (Request c) ''X-Request-Id'' = None \<longrightarrow>
              req_requestId rl = [] \<and> resp_requestId sl = [])"
proof -
  from HttpLogger_last_emitted [OF assms] obtain l w2 where
    e: "last (emitted w') =
          (l, InfoLevel,
           HttpMsg (requestLog lib c)
             (responseLog (req_requestId (requestLog lib c)) (clock w) w2 c'))"
    by blast
  let ?rl = "requestLog lib c"
  let ?sl = "responseLog (req_requestId (requestLog lib c)) (clock w) w2 c'"
  have a: "req_requestId ?rl = Header_Get (Header (Request c)) ''X-Request-Id''"
    by (simp add: requestLog_def)
  have b: "resp_requestId (responseLog x (clock w) w2 c') = x" for x
    by (simp add: responseLog_def)
  have p: "\<forall>v vs. Header (Request c) ''X-Request-Id'' = Some (v # vs) \<longrightarrow>
      Header_Get (Header (Request c)) ''X-Request-Id'' = v"
    by (simp add: Header_Get_def)
  have n: "Header (Request c) ''X-Request-Id'' = Some [] \<longrightarrow>
      Header_Get (Header (Request c)) ''X-Request-Id'' = []"
    by (simp add: Header_Get_def)
  have z: "Header (Request c) ''X-Request-Id'' = None \<longrightarrow>
      Header_Get (Header (Request c)) ''X-Request-Id'' = []"
    by (simp add: Header_Get_def)
  have f: "last (emitted w') = (l, InfoLevel, HttpMsg ?rl ?sl) \<and>
           req_requestId ?rl = Header_Get (Header (Request c)) ''X-Request-Id'' \<and>
           resp_requestId ?sl = Header_Get (Header (Request c)) ''X-Request-Id'' \<and>
           (\<forall>v vs. Header (Request c) ''X-Request-Id'' = Some (v # vs) \<longrightarrow>
              req_requestId ?rl = v \<and> resp_requestId ?sl = v) \<and>
           (Header (Request c) ''X-Request-Id'' = Some [] \<longrightarrow>
              req_requestId ?rl = [] \<and> resp_requestId ?sl = []) \<and>
           (Header (Request c) ''X-Request-Id'' = None \<longrightarrow>
              req_requestId ?rl = [] \<and> resp_requestId ?sl = [])"
    using e a b p n z by simp
  show ?thesis
    by (rule exI [where x = l], rule exI [where x = "?rl"], rule exI [where x = "?sl"], rule f)
qed

theorem request_id_from_header_witness:
  "(\<exists>w' c'. HttpLogger sample_lib text_handler ready_world
               (with_request_id ''req-42'' (sample_ctx ''GET'' ''a=1'' [] [])) = Inr (w', c') \<and>
      Header (Request (with_request_id ''req-42'' (sample_ctx ''GET'' ''a=1'' [] [])))
        ''X-Request-Id'' = Some [''req-42''] \<and>
      (\<exists>l rl sl. last (emitted w') = (l, InfoLevel, HttpMsg rl sl) \<and>
         req_requestId rl = ''req-42'' \<and> resp_requestId sl = ''req-42'')) \<and>
   (\<exists>w' c'. HttpLogger sample_lib text_handler ready_world (sample_ctx ''GET'' ''a=1'' [] [])
               = Inr (w', c') \<and>
      Header (Request (sample_ctx ''GET'' ''a=1'' [] [])) ''X-Request-Id'' = None \<and>
      (\<exists>l rl sl. last (emitted w') = (l, InfoLevel, HttpMsg rl sl) \<and>
         req_requestId rl = [] \<and> resp_requestId sl = []))"
proof -
  have present: "Header (Request (with_request_id ''req-42'' (sample_ctx ''GET'' ''a=1'' [] [])))
        ''X-Request-Id'' = Some [''req-42'']"
    by (simp add: with_request_id_def)
  obtain w' c' where run: "HttpLogger sample_lib text_handler ready_world
      (with_request_id ''req-42'' (sample_ctx ''GET'' ''a=1'' [] [])) = Inr (w', c')"
    by (simp add: HttpLogger_def text_handler_def sugar_log_def ready_world_def Let_def)
  have absent: "Header (Request (sample_ctx ''GET'' ''a=1'' [] [])) ''X-Request-Id'' = None"
    by (simp add: sample_ctx_def)
  from request_id_from_header [OF run] present run
  have 1: "\<exists>w' c'. HttpLogger sample_lib text_handler ready_world
               (with_request_id ''req-42'' (sample_ctx ''GET'' ''a=1'' [] [])) = Inr (w', c') \<and>
      Header (Request (with_request_id ''req-42'' (sample_ctx ''GET'' ''a=1'' [] [])))
        ''X-Request-Id'' = Some [''req-42''] \<and>
      (\<exists>l rl sl. last (emitted w') = (l, InfoLevel, HttpMsg rl sl) \<and>
         req_requestId rl = ''req-42'' \<and> resp_requestId sl = ''req-42'')"
    by auto
  from request_id_from_header [OF text_handler_run] absent text_handler_run
  have 2: "\<exists>w' c'. HttpLogger sample_lib text_handler ready_world (sample_ctx ''GET'' ''a=1'' [] [])
               = Inr (w', c') \<and>
      Header (Request (sample_ctx ''GET'' ''a=1'' [] [])) ''X-Request-Id'' = None \<and>
      (\<exists>l rl sl. last (emitted w') = (l, InfoLevel, HttpMsg rl sl) \<and>
         req_requestId rl = [] \<and> resp_requestId sl = [])"
    by auto
  from 1 2 show ?thesis by blast
qed

section \<open>JSON bodies that are not normalised\<close>

text \<open>
  C8, as stated for every request, fails: a GET request without content type, with an
  empty body and the query \<open>a=1\<close>, has the parsed query as its request parameter.
\<close>

theorem empty_body_with_query_has_params:
  "Body (Request (sample_ctx ''GET'' ''a=1'' [] [])) = [] \<and>
   req_reqParams (requestLog sample_lib (sample_ctx ''GET'' ''a=1'' [] []))
     = ParamsValues (Some [(''a'', [''1''])])"
  by (simp add: sample_ctx_def sample_lib_def requestLog_def requestParams_def req_switch_def
      ContentType_def Header_Get_def filterFlags_def URL_Query_def)

text \<open>
  C8, amended.  For every request of content type \<open>application/json\<close> whose body is
  empty or fails to decode, no request parameter is attached to the log (it stays nil)
  and the rest of the chain receives the body as it arrived.
\<close>

theorem json_empty_or_undecodable:
  assumes "ContentType c = ''application/json''"
    and "Body (Request c) = [] \<or> (\<exists>e. json_Unmarshal_map lib (Body (Request c)) = Inl e)"
  shows "req_reqParams (requestLog lib c) = ParamsNil \<and>
         Body (Request (beforeNext lib c)) = Body (Request c)"
  using assms by (auto simp: requestLog_def beforeNext_def requestParams_json)

theorem json_empty_or_undecodable_witness:
  "ContentType (sample_ctx ''POST'' [] ''application/json'' ''{bad'') = ''application/json'' \<and>
   json_Unmarshal_map sample_lib ''{bad'' = Inl SyntaxError \<and>
   req_reqParams (requestLog sample_lib (sample_ctx ''POST'' [] ''application/json'' ''{bad''))
     = ParamsNil \<and>
   Body (Request (beforeNext sample_lib (sample_ctx ''POST'' [] ''application/json'' ''{bad'')))
     = ''{bad''"
proof -
  have h: "ContentType (sample_ctx ''POST'' [] ''application/json'' ''{bad'')
             = ''application/json''"
    by (simp add: ContentType_def sample_ctx_def Header_Get_def filterFlags_def)
  have b: "Body (Request (sample_ctx ''POST'' [] ''application/json'' ''{bad'')) = ''{bad''"
    by (simp add: sample_ctx_def)
  have e: "json_Unmarshal_map sample_lib ''{bad'' = Inl SyntaxError"
    by (simp add: json_Unmarshal_map_def sample_lib_def)
  have d: "Body (Request (sample_ctx ''POST'' [] ''application/json'' ''{bad'')) = [] \<or>
           (\<exists>e. json_Unmarshal_map sample_lib
                  (Body (Request (sample_ctx ''POST'' [] ''application/json'' ''{bad''))) = Inl e)"
    unfolding b using e by blast
  from json_empty_or_undecodable [OF h d] h e b show ?thesis by simp
qed

text \<open>
  C9, as stated, fails for null: the body \<open>null\<close> decodes into the map without an
  error, leaving it nil, and the encoding of the nil map, the text \<open>null\<close>, is attached.
\<close>

theorem json_null_is_attached:
  "json_decode sample_lib ''null'' = Some JNull \<and>
   req_reqParams (requestLog sample_lib (sample_ctx ''POST'' [] ''application/json'' ''null''))
     = ParamsString ''null''"
  by (simp add: sample_ctx_def sample_lib_def requestLog_def requestParams_def req_switch_def
      ContentType_def Header_Get_def filterFlags_def io_ReadAll_def json_Unmarshal_map_def
      json_Marshal_map_def)

text \<open>
  C9, amended.  For a request of content type \<open>application/json\<close> whose body is a valid
  JSON text: when the top-level value is an array, a string, a number or a boolean, no
  request parameter is attached; when it is null, the text \<open>null\<close> is attached; in both
  cases the rest of the chain receives the body as it arrived.
\<close>

theorem json_non_object_not_attached:
  assumes "ContentType c = ''application/json''"
    and "json_decode lib (Body (Request c)) = Some v"
  shows "((\<exists>xs. v = JArray xs) \<or> (\<exists>s. v = JString s) \<or> (\<exists>n. v = JNumber n) \<or>
          (\<exists>b. v = JBool b)
            \<longrightarrow> req_reqParams (requestLog lib c) = ParamsNil) \<and>
         (v = JNull \<and> Body (Request c) \<noteq> []
            \<longrightarrow> req_reqParams (requestLog lib c) = ParamsString ''null'') \<and>
         Body (Request (beforeNext lib c)) = Body (Request c)"
  using assms
  by (auto simp: requestLog_def beforeNext_def requestParams_json json_Unmarshal_map_def
      json_Marshal_map_def)

theorem json_non_object_not_attached_witness:
  "ContentType (sample_ctx ''POST'' [] ''application/json'' ''[1,2]'') = ''application/json'' \<and>
   json_decode sample_lib ''[1,2]'' = Some (JArray [JNumber ''1'', JNumber ''2'']) \<and>
   req_reqParams (requestLog sample_lib (sample_ctx ''POST'' [] ''application/json'' ''[1,2]''))
     = ParamsNil \<and>
   Body (Request (beforeNext sample_lib (sample_ctx ''POST'' [] ''application/json'' ''[1,2]'')))
     = ''[1,2]'' \<and>
   ContentType (sample_ctx ''POST'' [] ''application/json'' ''null'') = ''application/json'' \<and>
   json_decode sample_lib ''null'' = Some JNull \<and>
   req_reqParams (requestLog sample_lib (sample_ctx ''POST'' [] ''application/json'' ''null''))
     = ParamsString ''null''"
proof -
  have h: "ContentType (sample_ctx ''POST'' [] ''application/json'' body) = ''application/json''"
    for body
    by (simp add: ContentType_def sample_ctx_def Header_Get_def filterFlags_def)
  have b: "Body (Request (sample_ctx ''POST'' [] ''application/json'' body)) = body" for body
    by (simp add: sample_ctx_def)
  have d1: "json_decode sample_lib
              (Body (Request (sample_ctx ''POST'' [] ''application/json'' ''[1,2]'')))
              = Some (JArray [JNumber ''1'', JNumber ''2''])"
    by (simp add: sample_lib_def b)
  have d2: "json_decode sample_lib
              (Body (Request (sample_ctx ''POST'' [] ''application/json'' ''null'')))
              = Some JNull"
    by (simp add: sample_lib_def b)
  from json_non_object_not_attached [OF h d1] json_non_object_not_attached [OF h d2] h d1 d2
  show ?thesis by (simp add: b)
qed

section \<open>The logger must be set\<close>

text \<open>
  C10.  When the rest of the chain has returned, \<open>HttpLogger\<close> panics with a nil
  pointer dereference exactly when \<open>SugarLogger\<close> is nil at that moment, and returns
  normally exactly when it is set.
\<close>

theorem HttpLogger_needs_SugarLogger:
  assumes "next w (beforeNext lib c) = Inr (w2, c2)"
  shows "(HttpLogger lib next w c = Inl NilPointerDereference) = (SugarLogger w2 = None) \<and>
         (\<exists>w3. HttpLogger lib next w c = Inr (w3, c2)) = (SugarLogger w2 \<noteq> None)"
  using assms by (auto simp: HttpLogger_def sugar_log_def Let_def split: option.splits)

theorem HttpLogger_needs_SugarLogger_witness:
  "text_handler fresh_world (beforeNext sample_lib (sample_ctx ''GET'' ''a=1'' [] [])) =
     Inr (fresh_world\<lparr>clock := clock fresh_world + 5\<rparr>,
          (beforeNext sample_lib (sample_ctx ''GET'' ''a=1'' [] []))
            \<lparr>Writer :=
               \<lparr>rec_writer = \<lparr>w_status = 200,
                               w_header = [''Content-Type'' \<mapsto> [''text/plain; charset=utf-8'']],
                               w_written = ''ok''\<rparr>,
                rec_Body = ''ok'', rec_status = 200\<rparr>\<rparr>) \<and>
   SugarLogger fresh_world = None \<and>
   HttpLogger sample_lib text_handler fresh_world (sample_ctx ''GET'' ''a=1'' [] [])
     = Inl NilPointerDereference"
proof -
  have r: "text_handler fresh_world (beforeNext sample_lib (sample_ctx ''GET'' ''a=1'' [] [])) =
     Inr (fresh_world\<lparr>clock := clock fresh_world + 5\<rparr>,
          (beforeNext sample_lib (sample_ctx ''GET'' ''a=1'' [] []))
            \<lparr>Writer :=
               \<lparr>rec_writer = \<lparr>w_status = 200,
                               w_header = [''Content-Type'' \<mapsto> [''text/plain; charset=utf-8'']],
                               w_written = ''ok''\<rparr>,
                rec_Body = ''ok'', rec_status = 200\<rparr>\<rparr>)"
    by (simp add: text_handler_def)
  have n: "SugarLogger fresh_world = None"
    by (simp add: fresh_world_def)
  from HttpLogger_needs_SugarLogger
    [of text_handler fresh_world sample_lib "sample_ctx ''GET'' ''a=1'' [] []", OF r] r n
  show ?thesis by simp
qed

end
